theory Spec2Isabelle
  imports Main "HOL-Library.Word"
begin

section \<open>The on-chain anchor registry (contracts/AnchorRegistry.sol)\<close>

text \<open>
  The contract keeps one storage variable, \<^verbatim>\<open>mapping(bytes32 => bool) public anchored\<close>
  (every key reads \<open>False\<close> until written), and emits \<^verbatim>\<open>AnchorStored\<close> events. The
  event log is part of the chain state. The transaction context supplies
  \<^verbatim>\<open>msg.sender\<close> and \<^verbatim>\<open>block.timestamp\<close>.
\<close>

type_synonym bytes32 = "256 word"
type_synonym address = "160 word"
type_synonym uint256 = "256 word"

record AnchorStored =
  anchorHash :: bytes32
  actor :: address
  timestamp :: uint256
  eventId :: string

record AnchorRegistry =
  anchored :: "bytes32 \<Rightarrow> bool"
  emitted :: "AnchorStored list"

record tx_context =
  msg_sender :: address
  block_timestamp :: uint256

datatype evm_error = Revert string

definition deployed :: AnchorRegistry where
  "deployed = \<lparr>anchored = (\<lambda>_. False), emitted = []\<rparr>"

text \<open>
  \<^verbatim>\<open>storeAnchor\<close>: the \<^verbatim>\<open>require\<close> aborts the call with its message when the hash is
  already present; otherwise the flag is set and one event is emitted.
\<close>

definition storeAnchor ::
  "tx_context \<Rightarrow> bytes32 \<Rightarrow> string \<Rightarrow> AnchorRegistry \<Rightarrow> evm_error + AnchorRegistry" where
  "storeAnchor cx h eid reg =
     (if anchored reg h then Inl (Revert ''Anchor already exists'')
      else Inr (reg\<lparr>anchored := (anchored reg)(h := True),
                     emitted := emitted reg @
                       [\<lparr>anchorHash = h, actor = msg_sender cx,
                         timestamp = block_timestamp cx, eventId = eid\<rparr>]\<rparr>))"

definition isAnchored :: "bytes32 \<Rightarrow> AnchorRegistry \<Rightarrow> bool" where
  "isAnchored h reg = anchored reg h"



section \<open>JavaScript values and the library functions the backend calls\<close>

text \<open>
  Values read from a request body or produced by \<^verbatim>\<open>JSON.parse\<close>. \<open>None\<close> of type
  \<open>json option\<close> stands for \<^verbatim>\<open>undefined\<close>. Numbers are kept as integers: the handlers
  only test them for truthiness and type.
\<close>

datatype json =
  JNull | JBool bool | JNum int | JStr string | JArr "json list" | JObj "(string \<times> json) list"

datatype js_exn = TypeError | SyntaxError | RangeError | LibraryError | SQLITE_CONSTRAINT

text \<open>\<^verbatim>\<open>!v\<close> for a JavaScript value.\<close>

definition falsy :: "json option \<Rightarrow> bool" where
  "falsy v = (v = None \<or> v = Some JNull \<or> v = Some (JBool False) \<or> v = Some (JNum 0)
              \<or> v = Some (JStr []))"

fun is_string :: "json option \<Rightarrow> bool" where
  "is_string (Some (JStr s)) = True"
| "is_string v = False"

text \<open>
  Reading one of the property names the handlers use (\<^verbatim>\<open>message\<close>, \<^verbatim>\<open>signature\<close>,
  \<^verbatim>\<open>session_id\<close>, \<^verbatim>\<open>challenge_nonce\<close>): \<^verbatim>\<open>null\<close> throws a TypeError, an object gives
  the member or \<^verbatim>\<open>undefined\<close>, every other value gives \<^verbatim>\<open>undefined\<close>. The members of a
  parsed object have distinct keys.
\<close>

fun get_property :: "json \<Rightarrow> string \<Rightarrow> js_exn + json option" where
  "get_property JNull k = Inl TypeError"
| "get_property (JObj kvs) k = Inr (map_of kvs k)"
| "get_property v k = Inr None"

text \<open>
  The functions of Node's \<^verbatim>\<open>crypto\<close>, of \<^verbatim>\<open>elliptic\<close>, of \<^verbatim>\<open>Buffer\<close> and \<^verbatim>\<open>JSON.parse\<close>
  are parameters of the model. A library call that throws returns \<open>None\<close>.
  \<^item> \<open>sha256_hex s\<close> is \<^verbatim>\<open>crypto.createHash('sha256').update(s).digest('hex')\<close>;
  \<^item> \<open>keyFromPublic h\<close> is \<^verbatim>\<open>ec.keyFromPublic(h, 'hex')\<close>;
  \<^item> \<open>key_verify k h r s\<close> is \<^verbatim>\<open>k.verify(h, {r, s})\<close>;
  \<^item> \<open>base64_to_utf8 b\<close> is \<^verbatim>\<open>Buffer.from(b, 'base64').toString('utf8')\<close>;
  \<^item> \<open>JSON_parse s\<close> is \<^verbatim>\<open>JSON.parse(s)\<close>, \<open>None\<close> for a SyntaxError.
\<close>

datatype ec_key = KeyPair string

record library =
  sha256_hex :: "string \<Rightarrow> string"
  keyFromPublic :: "string \<Rightarrow> ec_key option"
  key_verify :: "ec_key \<Rightarrow> string \<Rightarrow> string \<Rightarrow> string \<Rightarrow> bool option"
  base64_to_utf8 :: "string \<Rightarrow> string"
  JSON_parse :: "string \<Rightarrow> json option"

section \<open>Utility functions of the server\<close>

subsection \<open>Random tokens and identifiers\<close>

text \<open>
  \<^verbatim>\<open>crypto.randomBytes(n)\<close> returns exactly \<open>n\<close> bytes. The entropy source is a stream of
  bytes; a call reads the next \<open>n\<close> of them. \<^verbatim>\<open>toString('hex')\<close> writes two lower-case
  digits per byte.
\<close>

type_synonym entropy = "nat \<Rightarrow> 8 word"

definition randomBytes :: "nat \<Rightarrow> entropy \<Rightarrow> 8 word list \<times> entropy" where
  "randomBytes n src = (map src [0..<n], \<lambda>i. src (n + i))"

definition hex_digit :: "nat \<Rightarrow> char" where
  "hex_digit n = ''0123456789abcdef'' ! n"

definition hex_byte :: "8 word \<Rightarrow> string" where
  "hex_byte b = [hex_digit (unat b div 16), hex_digit (unat b mod 16)]"

definition toString_hex :: "8 word list \<Rightarrow> string" where
  "toString_hex bs = concat (map hex_byte bs)"

definition generateToken :: "nat \<Rightarrow> entropy \<Rightarrow> string \<times> entropy" where
  "generateToken len src =
     (case randomBytes len src of (bs, src') \<Rightarrow> (toString_hex bs, src'))"

definition generateId :: "string \<Rightarrow> entropy \<Rightarrow> string \<times> entropy" where
  "generateId prefix src =
     (case randomBytes 8 src of (bs, src') \<Rightarrow> (prefix @ ''_'' @ toString_hex bs, src'))"

definition hashString :: "library \<Rightarrow> string \<Rightarrow> string" where
  "hashString L data = sha256_hex L data"

subsection \<open>Hexadecimal strings\<close>

definition is_hex_char :: "char \<Rightarrow> bool" where
  "is_hex_char c = (c \<in> set ''0123456789abcdefABCDEF'')"

text \<open>
  The value of a hexadecimal digit, read from a table of the digits in both cases; a
  character that is not a digit counts 0 (the callers test \<open>is_hex_char\<close> first).
\<close>

definition hex_values :: "(char \<times> int) list" where
  "hex_values =
     zip ''0123456789abcdef'' [0, 1, 2, 3, 4, 5, 6, 7, 8, 9, 10, 11, 12, 13, 14, 15] @
     zip ''ABCDEF'' [10, 11, 12, 13, 14, 15]"

definition hex_value :: "char \<Rightarrow> int" where
  "hex_value c = (case map_of hex_values c of Some v \<Rightarrow> v | None \<Rightarrow> 0)"

text \<open>
  The contract interface takes a \<^verbatim>\<open>bytes32\<close> argument as \<^verbatim>\<open>0x\<close> and 64 hexadecimal digits;
  any other string is refused before a call is made.
\<close>

definition bytes32_of_hex :: "string \<Rightarrow> bytes32 option" where
  "bytes32_of_hex s =
     (if take 2 s = ''0x'' \<and> length s = 66 \<and> list_all is_hex_char (drop 2 s)
      then Some (word_of_int (foldl (\<lambda>acc c. 16 * acc + hex_value c) 0 (drop 2 s)))
      else None)"

subsection \<open>\<^verbatim>\<open>JSON.stringify\<close> on the event object\<close>

text \<open>
  \<^verbatim>\<open>JSON.stringify\<close> quotes a string: the quotation mark, the backslash and the control
  characters are escaped, every other character is copied. A character of the model is
  one code unit below 256.
\<close>

definition json_escape :: "char \<Rightarrow> string" where
  "json_escape c =
     (if c = CHR 0x22 then [CHR 0x5C, CHR 0x22]
      else if c = CHR 0x5C then [CHR 0x5C, CHR 0x5C]
      else if c = CHR 0x08 then [CHR 0x5C, CHR ''b'']
      else if c = CHR 0x0C then [CHR 0x5C, CHR ''f'']
      else if c = CHR 0x0A then [CHR 0x5C, CHR ''n'']
      else if c = CHR 0x0D then [CHR 0x5C, CHR ''r'']
      else if c = CHR 0x09 then [CHR 0x5C, CHR ''t'']
      else if (of_char c :: nat) < 32
        then [CHR 0x5C, CHR ''u'', CHR ''0'', CHR ''0'',
              hex_digit (of_char c div 16), hex_digit (of_char c mod 16)]
      else [c])"

definition QuoteJSONString :: "string \<Rightarrow> string" where
  "QuoteJSONString s = CHR 0x22 # concat (map json_escape s) @ [CHR 0x22]"

definition json_member :: "string \<Rightarrow> string \<Rightarrow> string" where
  "json_member k v = QuoteJSONString k @ '':'' @ v"

text \<open>An array of strings, as \<^verbatim>\<open>JSON.stringify(evidence_hashes)\<close> writes it.\<close>

fun json_elements :: "string list \<Rightarrow> string" where
  "json_elements [] = []"
| "json_elements [x] = QuoteJSONString x"
| "json_elements (x # y # ys) = QuoteJSONString x @ '','' @ json_elements (y # ys)"

definition stringify_strings :: "string list \<Rightarrow> string" where
  "stringify_strings xs = ''['' @ json_elements xs @ '']''"

text \<open>
  The event object the delivery handler builds (\<^verbatim>\<open>eventData\<close>). A row of the table
  \<^verbatim>\<open>delivery_events\<close> extends it with the anchoring columns, so \<open>canonicalizeEvent\<close>
  applies to both. The column \<^verbatim>\<open>evidence_hashes\<close> is text: the handler stores the
  stringified array.
\<close>

record eventData =
  e_event_id :: string
  e_session_id :: string
  e_order_id :: string
  e_customer_id :: string
  e_dp_id :: string
  e_ephemeral_token_hash :: string
  e_challenge_nonce :: string
  e_dp_signature :: string
  e_evidence_hashes :: string
  e_timestamp :: string
  e_backend_received_at :: string

text \<open>
  \<^verbatim>\<open>canonicalizeEvent\<close>: ten members in the order of the object literal.
  \<^verbatim>\<open>eventData.evidence_hashes || []\<close> replaces the empty string by an empty array.
\<close>

definition canonicalizeEvent :: "'a eventData_scheme \<Rightarrow> string" where
  "canonicalizeEvent ev =
     ''{'' @ json_member ''session_id'' (QuoteJSONString (e_session_id ev)) @
     '','' @ json_member ''order_id'' (QuoteJSONString (e_order_id ev)) @
     '','' @ json_member ''customer_id'' (QuoteJSONString (e_customer_id ev)) @
     '','' @ json_member ''dp_id'' (QuoteJSONString (e_dp_id ev)) @
     '','' @ json_member ''ephemeral_token_hash'' (QuoteJSONString (e_ephemeral_token_hash ev)) @
     '','' @ json_member ''challenge_nonce'' (QuoteJSONString (e_challenge_nonce ev)) @
     '','' @ json_member ''dp_signature'' (QuoteJSONString (e_dp_signature ev)) @
     '','' @ json_member ''evidence_hashes''
              (if e_evidence_hashes ev = [] then ''[]''
               else QuoteJSONString (e_evidence_hashes ev)) @
     '','' @ json_member ''timestamp'' (QuoteJSONString (e_timestamp ev)) @
     '','' @ json_member ''backend_received_at'' (QuoteJSONString (e_backend_received_at ev)) @
     ''}''"

subsection \<open>\<^verbatim>\<open>verifySignature\<close>\<close>

text \<open>
  The body of the \<^verbatim>\<open>try\<close> block: four guards that return \<^verbatim>\<open>false\<close>, then the library
  calls, each of which may throw. \<^verbatim>\<open>hashString(message)\<close> throws a TypeError unless
  \<^verbatim>\<open>message\<close> is a string. \<^verbatim>\<open>slice(0, 64)\<close> and \<^verbatim>\<open>slice(64, 128)\<close> cut the signature.
\<close>

definition verifySignature_try ::
  "library \<Rightarrow> json option \<Rightarrow> json option \<Rightarrow> json option \<Rightarrow> js_exn + bool" where
  "verifySignature_try L publicKeyHex message signatureHex =
     (case publicKeyHex of
        Some (JStr pk) \<Rightarrow>
          if pk = [] then Inr False
          else (case signatureHex of
            Some (JStr sg) \<Rightarrow>
              if sg = [] then Inr False
              else if \<not> list_all is_hex_char sg then Inr False
              else if length sg \<noteq> 128 then Inr False
              else (case keyFromPublic L pk of
                None \<Rightarrow> Inl LibraryError
              | Some k \<Rightarrow>
                (case message of
                   Some (JStr m) \<Rightarrow>
                     (case key_verify L k (hashString L m) (take 64 sg) (take 64 (drop 64 sg)) of
                        None \<Rightarrow> Inl LibraryError
                      | Some ok \<Rightarrow> Inr ok)
                 | _ \<Rightarrow> Inl TypeError))
          | _ \<Rightarrow> Inr False)
      | _ \<Rightarrow> Inr False)"

text \<open>The \<^verbatim>\<open>catch\<close> block turns every exception into \<^verbatim>\<open>false\<close>.\<close>

definition verifySignature ::
  "library \<Rightarrow> json option \<Rightarrow> json option \<Rightarrow> json option \<Rightarrow> bool" where
  "verifySignature L publicKeyHex message signatureHex =
     (case verifySignature_try L publicKeyHex message signatureHex of
        Inl e \<Rightarrow> False
      | Inr ok \<Rightarrow> ok)"

section \<open>The record store (backend/db.js)\<close>

text \<open>
  One record per table row; a table is the list of its rows in insertion order. Columns
  that the \<^verbatim>\<open>INSERT\<close> statements leave out take their \<^verbatim>\<open>DEFAULT\<close>. The column \<^verbatim>\<open>used\<close>
  holds 0 or 1 and is kept as a boolean. An \<^verbatim>\<open>INSERT\<close> whose primary key is present
  fails with \<^verbatim>\<open>SQLITE_CONSTRAINT\<close>.
\<close>

record session_row =
  s_session_id :: string
  s_customer_id :: string
  s_order_id :: string
  s_ephemeral_token :: string
  s_token_type :: string
  s_created_at :: int
  s_expires_at :: int
  s_status :: string

record challenge_row =
  c_challenge_id :: string
  c_session_id :: string
  c_dp_id :: string
  c_challenge_nonce :: string
  c_created_at :: int
  c_expires_at :: int
  c_used :: bool

record event_row = eventData +
  e_anchor_hash :: "string option"
  e_tx_hash :: "string option"
  e_anchored_at :: "string option"
  e_status :: string

record dp_key_row =
  k_dp_id :: string
  k_public_key :: string
  k_key_type :: string
  k_registered_at :: int
  k_status :: string

record database =
  sessions :: "session_row list"
  challenges :: "challenge_row list"
  delivery_events :: "event_row list"
  dp_keys :: "dp_key_row list"

definition empty_database :: database where
  "empty_database = \<lparr>sessions = [], challenges = [], delivery_events = [], dp_keys = []\<rparr>"

definition createSession ::
  "string \<Rightarrow> string \<Rightarrow> string \<Rightarrow> string \<Rightarrow> string \<Rightarrow> int \<Rightarrow> int \<Rightarrow> database
     \<Rightarrow> js_exn + database" where
  "createSession session_id customer_id order_id ephemeral_token token_type created_at expires_at d =
     (if session_id \<in> set (map s_session_id (sessions d)) then Inl SQLITE_CONSTRAINT
      else Inr (d\<lparr>sessions := sessions d @
        [\<lparr>s_session_id = session_id, s_customer_id = customer_id, s_order_id = order_id,
          s_ephemeral_token = ephemeral_token, s_token_type = token_type,
          s_created_at = created_at, s_expires_at = expires_at, s_status = ''active''\<rparr>]\<rparr>))"

definition getSession :: "string \<Rightarrow> database \<Rightarrow> session_row option" where
  "getSession session_id d = find (\<lambda>r. s_session_id r = session_id) (sessions d)"

definition updateSessionStatus :: "string \<Rightarrow> string \<Rightarrow> database \<Rightarrow> database" where
  "updateSessionStatus session_id status d =
     d\<lparr>sessions := map (\<lambda>r. if s_session_id r = session_id then r\<lparr>s_status := status\<rparr> else r)
                        (sessions d)\<rparr>"

definition createChallenge ::
  "string \<Rightarrow> string \<Rightarrow> string \<Rightarrow> string \<Rightarrow> int \<Rightarrow> int \<Rightarrow> database \<Rightarrow> js_exn + database" where
  "createChallenge challenge_id session_id dp_id challenge_nonce created_at expires_at d =
     (if challenge_id \<in> set (map c_challenge_id (challenges d)) then Inl SQLITE_CONSTRAINT
      else Inr (d\<lparr>challenges := challenges d @
        [\<lparr>c_challenge_id = challenge_id, c_session_id = session_id, c_dp_id = dp_id,
          c_challenge_nonce = challenge_nonce, c_created_at = created_at,
          c_expires_at = expires_at, c_used = False\<rparr>]\<rparr>))"

text \<open>
  \<^verbatim>\<open>ORDER BY created_at DESC LIMIT 1\<close>: a row with the greatest \<^verbatim>\<open>created_at\<close>. Among rows
  created in the same millisecond SQL leaves the choice open; the model takes the one
  inserted first.
\<close>

fun newest :: "challenge_row list \<Rightarrow> challenge_row option" where
  "newest [] = None"
| "newest (c # cs) =
     (case newest cs of
        None \<Rightarrow> Some c
      | Some d \<Rightarrow> if c_created_at c < c_created_at d then Some d else Some c)"

definition getChallenge :: "string \<Rightarrow> string \<Rightarrow> database \<Rightarrow> challenge_row option" where
  "getChallenge session_id dp_id d =
     newest (filter (\<lambda>c. c_session_id c = session_id \<and> c_dp_id c = dp_id \<and> \<not> c_used c)
               (challenges d))"

definition markChallengeUsed :: "string \<Rightarrow> database \<Rightarrow> database" where
  "markChallengeUsed challenge_id d =
     d\<lparr>challenges := map (\<lambda>c. if c_challenge_id c = challenge_id then c\<lparr>c_used := True\<rparr> else c)
                          (challenges d)\<rparr>"

definition createDeliveryEvent :: "eventData \<Rightarrow> database \<Rightarrow> js_exn + database" where
  "createDeliveryEvent ev d =
     (if e_event_id ev \<in> set (map e_event_id (delivery_events d)) then Inl SQLITE_CONSTRAINT
      else Inr (d\<lparr>delivery_events := delivery_events d @
        [eventData.extend ev
           \<lparr>e_anchor_hash = None, e_tx_hash = None, e_anchored_at = None,
            e_status = ''pending''\<rparr>]\<rparr>))"

definition updateEventAnchor :: "string \<Rightarrow> string \<Rightarrow> string \<Rightarrow> string \<Rightarrow> database \<Rightarrow> database" where
  "updateEventAnchor event_id anchor_hash tx_hash anchored_at d =
     d\<lparr>delivery_events :=
         map (\<lambda>r. if e_event_id r = event_id
                   then r\<lparr>e_anchor_hash := Some anchor_hash, e_tx_hash := Some tx_hash,
                          e_anchored_at := Some anchored_at, e_status := ''anchored''\<rparr>
                   else r)
             (delivery_events d)\<rparr>"

definition getDeliveryEvent :: "string \<Rightarrow> database \<Rightarrow> event_row option" where
  "getDeliveryEvent event_id d = find (\<lambda>r. e_event_id r = event_id) (delivery_events d)"

text \<open>\<^verbatim>\<open>INSERT OR REPLACE\<close> removes a row with the same key first.\<close>

definition registerDPKey :: "string \<Rightarrow> string \<Rightarrow> int \<Rightarrow> database \<Rightarrow> database" where
  "registerDPKey dp_id public_key registered_at d =
     d\<lparr>dp_keys := filter (\<lambda>r. k_dp_id r \<noteq> dp_id) (dp_keys d) @
        [\<lparr>k_dp_id = dp_id, k_public_key = public_key, k_key_type = ''secp256k1'',
          k_registered_at = registered_at, k_status = ''active''\<rparr>]\<rparr>"

definition getDPKey :: "string \<Rightarrow> database \<Rightarrow> dp_key_row option" where
  "getDPKey dp_id d = find (\<lambda>r. k_dp_id r = dp_id \<and> k_status r = ''active'') (dp_keys d)"

section \<open>The request handlers of the server\<close>

text \<open>
  The state of the server: the database and the contract handle, which is \<open>None\<close> while
  anchoring is disabled and otherwise the state of the deployed registry. A handler
  takes the request, the readings of the clock and of the entropy source it makes, and
  the state; it returns the response and the new state. The outer \<^verbatim>\<open>catch\<close> of a handler
  answers 500 and keeps what was written before the exception.
\<close>

record backend =
  db :: database
  contract :: "AnchorRegistry option"

record verification_report =
  r_event_id :: string
  r_session_id :: string
  r_order_id :: string
  r_dp_id :: string
  r_timestamp :: string
  r_status :: string
  r_tx_hash :: "string option"
  r_anchor_hash :: "string option"
  r_anchored_at :: "string option"
  r_blockchain_verified :: bool

text \<open>
  Responses: the JSON bodies of status 200, and \<open>Err code message\<close> for
  \<^verbatim>\<open>res.status(code).json({ error: message })\<close>. Dates in a body are kept as the
  millisecond value that \<^verbatim>\<open>toISOString\<close> renders.
\<close>

datatype reply =
  SessionCreated string string string int int
| ChallengeIssued string int
| Verified string "string option"
| Report verification_report
| Registered string
| Err nat string

text \<open>\<^verbatim>\<open>new Date(t).toISOString()\<close> throws a RangeError outside the range of dates.\<close>

definition toISOString :: "int \<Rightarrow> js_exn + int" where
  "toISOString t = (if \<bar>t\<bar> \<le> 8640000000000000 then Inr t else Inl RangeError)"

subsection \<open>\<^verbatim>\<open>POST /api/v1/sessions\<close>\<close>

record sessions_body =
  b_customer_id :: string
  b_order_id :: string
  b_ttl_seconds :: "int option"

record sessions_env =
  se_now :: int
  se_entropy :: entropy

text \<open>The destructuring default \<^verbatim>\<open>ttl_seconds = 300\<close>.\<close>

definition ttl_of :: "sessions_body \<Rightarrow> int" where
  "ttl_of body = (case b_ttl_seconds body of None \<Rightarrow> 300 | Some t \<Rightarrow> t)"

definition post_sessions :: "sessions_body \<Rightarrow> sessions_env \<Rightarrow> backend \<Rightarrow> reply \<times> backend" where
  "post_sessions body env st =
     (let ttl = ttl_of body in
      if b_customer_id body = [] \<or> b_order_id body = []
      then (Err 400 ''customer_id and order_id required'', st)
      else
        (case generateId ''s'' (se_entropy env) of (session_id, src1) \<Rightarrow>
         case generateToken 32 src1 of (ephemeral_token, src2) \<Rightarrow>
         let created_at = se_now env;
             expires_at = created_at + ttl * 1000 in
         case createSession session_id (b_customer_id body) (b_order_id body) ephemeral_token
                ''BLE'' created_at expires_at (db st) of
           Inl e \<Rightarrow> (Err 500 ''Internal server error'', st)
         | Inr d \<Rightarrow>
           (case toISOString expires_at of
              Inl e \<Rightarrow> (Err 500 ''Internal server error'', st\<lparr>db := d\<rparr>)
            | Inr rendered \<Rightarrow>
                (SessionCreated session_id ephemeral_token ''BLE'' rendered ttl, st\<lparr>db := d\<rparr>))))"

subsection \<open>\<^verbatim>\<open>POST /api/v1/sessions/:session_id/challenge\<close>\<close>

record challenge_env =
  ce_now_check :: int
  ce_now_created :: int
  ce_entropy :: entropy

definition post_challenge ::
  "string \<Rightarrow> string \<Rightarrow> challenge_env \<Rightarrow> backend \<Rightarrow> reply \<times> backend" where
  "post_challenge session_id dp_id env st =
     (if dp_id = [] then (Err 400 ''dp_id required'', st)
      else case getSession session_id (db st) of
        None \<Rightarrow> (Err 404 ''Session not found'', st)
      | Some session \<Rightarrow>
          if ce_now_check env > s_expires_at session then (Err 400 ''Session expired'', st)
          else if s_status session \<noteq> ''active'' then (Err 400 ''Session not active'', st)
          else (case getDPKey dp_id (db st) of
            None \<Rightarrow> (Err 403 ''Delivery partner not registered'', st)
          | Some dpKey \<Rightarrow>
             (case generateId ''ch'' (ce_entropy env) of (challenge_id, src1) \<Rightarrow>
              case generateToken 16 src1 of (challenge_nonce, src2) \<Rightarrow>
              let created_at = ce_now_created env;
                  expires_at = created_at + 60 * 1000 in
              case createChallenge challenge_id session_id dp_id challenge_nonce
                     created_at expires_at (db st) of
                Inl e \<Rightarrow> (Err 500 ''Internal server error'', st)
              | Inr d \<Rightarrow>
                (case toISOString expires_at of
                   Inl e \<Rightarrow> (Err 500 ''Internal server error'', st\<lparr>db := d\<rparr>)
                 | Inr rendered \<Rightarrow> (ChallengeIssued challenge_nonce rendered, st\<lparr>db := d\<rparr>)))))"

subsection \<open>\<^verbatim>\<open>POST /api/v1/deliveries\<close>\<close>

record deliveries_body =
  b_session_id :: string
  b_dp_id :: string
  b_signed_blob :: string
  b_evidence_hashes :: "string list"

text \<open>
  What the handler reads from its environment: \<^verbatim>\<open>Date.now()\<close>, the entropy source, the
  two \<^verbatim>\<open>new Date().toISOString()\<close> readings of the event, and for the anchoring call
  whether the node answers, the transaction context, whether the receipt arrives, the
  receipt's hash and the reading of the clock after it.
\<close>

record deliveries_env =
  de_now :: int
  de_entropy :: entropy
  de_timestamp :: string
  de_backend_received_at :: string
  de_rpc_ok :: bool
  de_tx :: tx_context
  de_receipt_ok :: bool
  de_receipt_hash :: string
  de_anchored_at :: string

text \<open>
  \<^verbatim>\<open>JSON.parse(Buffer.from(signed_blob, 'base64').toString('utf8'))\<close> and the destructuring
  \<^verbatim>\<open>const { message, signature } = signedData\<close>.
\<close>

definition parse_signed_blob :: "library \<Rightarrow> string \<Rightarrow> js_exn + (json option \<times> json option)" where
  "parse_signed_blob L blob =
     (case JSON_parse L (base64_to_utf8 L blob) of
        None \<Rightarrow> Inl SyntaxError
      | Some signedData \<Rightarrow>
        (case get_property signedData ''message'' of
           Inl e \<Rightarrow> Inl e
         | Inr message \<Rightarrow>
           (case get_property signedData ''signature'' of
              Inl e \<Rightarrow> Inl e
            | Inr signature \<Rightarrow> Inr (message, signature))))"

text \<open>
  \<^verbatim>\<open>JSON.parse(message)\<close> and the comparison of \<^verbatim>\<open>session_id\<close> and \<^verbatim>\<open>challenge_nonce\<close> by
  \<^verbatim>\<open>!==\<close>; the result is whether both are equal.
\<close>

definition message_matches :: "library \<Rightarrow> string \<Rightarrow> string \<Rightarrow> string \<Rightarrow> js_exn + bool" where
  "message_matches L message session_id nonce =
     (case JSON_parse L message of
        None \<Rightarrow> Inl SyntaxError
      | Some messageData \<Rightarrow>
        (case get_property messageData ''session_id'' of
           Inl e \<Rightarrow> Inl e
         | Inr sid \<Rightarrow>
             if sid \<noteq> Some (JStr session_id) then Inr False
             else (case get_property messageData ''challenge_nonce'' of
                     Inl e \<Rightarrow> Inl e
                   | Inr n \<Rightarrow> Inr (n = Some (JStr nonce)))))"

text \<open>
  The anchoring block. Any failure inside it (the node does not answer, the hash is not
  a \<^verbatim>\<open>bytes32\<close>, the contract reverts, the receipt does not arrive) is caught and the
  handler continues with \<^verbatim>\<open>txHash = null\<close>. A transaction that was sent changes the
  registry even when its receipt is lost.
\<close>

definition anchor_event ::
  "library \<Rightarrow> deliveries_env \<Rightarrow> eventData \<Rightarrow> backend \<Rightarrow> string option \<times> backend" where
  "anchor_event L env ev st =
     (case contract st of
        None \<Rightarrow> (None, st)
      | Some reg \<Rightarrow>
         let canonicalJson = canonicalizeEvent ev;
             anchor_hash = ''0x'' @ hashString L canonicalJson in
         if \<not> de_rpc_ok env then (None, st)
         else (case bytes32_of_hex anchor_hash of
           None \<Rightarrow> (None, st)
         | Some h \<Rightarrow>
           (case storeAnchor (de_tx env) h (e_event_id ev) reg of
              Inl err \<Rightarrow> (None, st)
            | Inr reg' \<Rightarrow>
                if \<not> de_receipt_ok env then (None, st\<lparr>contract := Some reg'\<rparr>)
                else (Some (de_receipt_hash env),
                      st\<lparr>db := updateEventAnchor (e_event_id ev) anchor_hash
                                  (de_receipt_hash env) (de_anchored_at env) (db st),
                         contract := Some reg'\<rparr>))))"

text \<open>
  The object \<^verbatim>\<open>eventData\<close> of the handler. The event id is read from the entropy
  source; the secret's hash is computed from the stored session, not taken from the
  message.
\<close>

definition new_event ::
  "library \<Rightarrow> deliveries_body \<Rightarrow> deliveries_env \<Rightarrow> session_row \<Rightarrow> challenge_row \<Rightarrow> string
     \<Rightarrow> eventData" where
  "new_event L body env session challenge signature =
     \<lparr>e_event_id = fst (generateId ''evt'' (de_entropy env)),
      e_session_id = b_session_id body,
      e_order_id = s_order_id session,
      e_customer_id = s_customer_id session,
      e_dp_id = b_dp_id body,
      e_ephemeral_token_hash = ''sha256:'' @ hashString L (s_ephemeral_token session),
      e_challenge_nonce = c_challenge_nonce challenge,
      e_dp_signature = signature,
      e_evidence_hashes = stringify_strings (b_evidence_hashes body),
      e_timestamp = de_timestamp env,
      e_backend_received_at = de_backend_received_at env\<rparr>"

text \<open>
  The part of the handler after the checks: the challenge is marked used, the event is
  built and stored, the session is completed, the event is anchored.
\<close>

definition record_delivery ::
  "library \<Rightarrow> deliveries_body \<Rightarrow> deliveries_env \<Rightarrow> session_row \<Rightarrow> challenge_row \<Rightarrow> string
     \<Rightarrow> backend \<Rightarrow> reply \<times> backend" where
  "record_delivery L body env session challenge signature st =
     (let d1 = markChallengeUsed (c_challenge_id challenge) (db st);
          ev = new_event L body env session challenge signature in
      case createDeliveryEvent ev d1 of
        Inl e \<Rightarrow> (Err 500 ''Internal server error'', st\<lparr>db := d1\<rparr>)
      | Inr d2 \<Rightarrow>
          let d3 = updateSessionStatus (b_session_id body) ''completed'' d2 in
          case anchor_event L env ev (st\<lparr>db := d3\<rparr>) of
            (txHash, st') \<Rightarrow> (Verified (e_event_id ev) txHash, st'))"

text \<open>
  The checks of the handler, in the order of the source; each failing check returns its
  response at once. When all pass, the result is the session, the challenge and the
  signature that the rest of the handler uses. After \<open>verifySignature\<close> has
  returned \<^verbatim>\<open>true\<close> the message and the signature are strings (lemma
  \<open>verifySignature_strings\<close>), so the last branch of the case on them is never taken.
\<close>

definition delivery_checks ::
  "library \<Rightarrow> deliveries_body \<Rightarrow> deliveries_env \<Rightarrow> backend
     \<Rightarrow> reply + (session_row \<times> challenge_row \<times> string)" where
  "delivery_checks L body env st =
     (if b_session_id body = [] \<or> b_dp_id body = [] \<or> b_signed_blob body = []
      then Inl (Err 400 ''session_id, dp_id, and signed_blob required'')
      else case getSession (b_session_id body) (db st) of
        None \<Rightarrow> Inl (Err 404 ''Session not found'')
      | Some session \<Rightarrow>
        (case getChallenge (b_session_id body) (b_dp_id body) (db st) of
           None \<Rightarrow> Inl (Err 400 ''No active challenge found'')
         | Some challenge \<Rightarrow>
             if de_now env > c_expires_at challenge then Inl (Err 400 ''Challenge expired'')
             else (case getDPKey (b_dp_id body) (db st) of
               None \<Rightarrow> Inl (Err 403 ''Delivery partner not registered'')
             | Some dpKey \<Rightarrow>
               (case parse_signed_blob L (b_signed_blob body) of
                  Inl e \<Rightarrow> Inl (Err 500 ''Internal server error'')
                | Inr (message, signature) \<Rightarrow>
                    if \<not> verifySignature L (Some (JStr (k_public_key dpKey))) message signature
                    then Inl (Err 401 ''Invalid signature'')
                    else (case (message, signature) of
                      (Some (JStr m), Some (JStr sg)) \<Rightarrow>
                        (case message_matches L m (b_session_id body)
                                (c_challenge_nonce challenge) of
                           Inl e \<Rightarrow> Inl (Err 500 ''Internal server error'')
                         | Inr matches \<Rightarrow>
                             if \<not> matches then Inl (Err 400 ''Message data mismatch'')
                             else Inr (session, challenge, sg))
                    | _ \<Rightarrow> Inl (Err 500 ''Internal server error''))))))"

definition post_deliveries ::
  "library \<Rightarrow> deliveries_body \<Rightarrow> deliveries_env \<Rightarrow> backend \<Rightarrow> reply \<times> backend" where
  "post_deliveries L body env st =
     (case delivery_checks L body env st of
        Inl response \<Rightarrow> (response, st)
      | Inr (session, challenge, signature) \<Rightarrow>
          record_delivery L body env session challenge signature st)"

subsection \<open>\<^verbatim>\<open>GET /api/v1/deliveries/:event_id/verify\<close>\<close>

text \<open>
  \<^verbatim>\<open>blockchain_verified\<close> is the answer of \<^verbatim>\<open>contract.isAnchored(event.anchor_hash)\<close> when
  the contract handle is set and the stored hash is neither \<^verbatim>\<open>null\<close> nor empty; a call
  that throws leaves it \<^verbatim>\<open>false\<close>.
\<close>

definition blockchainVerified :: "bool \<Rightarrow> event_row \<Rightarrow> backend \<Rightarrow> bool" where
  "blockchainVerified rpc_ok event st =
     (case contract st of
        None \<Rightarrow> False
      | Some reg \<Rightarrow>
        (case e_anchor_hash event of
           None \<Rightarrow> False
         | Some h \<Rightarrow>
             if h = [] then False
             else if \<not> rpc_ok then False
             else (case bytes32_of_hex h of
                     None \<Rightarrow> False
                   | Some w \<Rightarrow> isAnchored w reg)))"

definition get_verify :: "string \<Rightarrow> bool \<Rightarrow> backend \<Rightarrow> reply \<times> backend" where
  "get_verify event_id rpc_ok st =
     (case getDeliveryEvent event_id (db st) of
        None \<Rightarrow> (Err 404 ''Event not found'', st)
      | Some event \<Rightarrow>
          (Report \<lparr>r_event_id = e_event_id event,
                   r_session_id = e_session_id event,
                   r_order_id = e_order_id event,
                   r_dp_id = e_dp_id event,
                   r_timestamp = e_timestamp event,
                   r_status = e_status event,
                   r_tx_hash = e_tx_hash event,
                   r_anchor_hash = e_anchor_hash event,
                   r_anchored_at = e_anchored_at event,
                   r_blockchain_verified = blockchainVerified rpc_ok event st\<rparr>, st))"

subsection \<open>\<^verbatim>\<open>POST /api/v1/dp/register\<close>\<close>

definition is_space :: "char \<Rightarrow> bool" where
  "is_space c = (c \<in> set [CHR 0x09, CHR 0x0A, CHR 0x0B, CHR 0x0C, CHR 0x0D, CHR 0x20, CHR 0xA0])"

definition trim :: "string \<Rightarrow> string" where
  "trim s = rev (dropWhile is_space (rev (dropWhile is_space s)))"

definition is_id_char :: "char \<Rightarrow> bool" where
  "is_id_char c =
     (let n = of_char c :: nat in
      (97 \<le> n \<and> n \<le> 122) \<or> (65 \<le> n \<and> n \<le> 90) \<or> (48 \<le> n \<and> n \<le> 57)
        \<or> c = CHR ''_'' \<or> c = CHR ''-'')"

definition post_register :: "library \<Rightarrow> string \<Rightarrow> string \<Rightarrow> int \<Rightarrow> backend \<Rightarrow> reply \<times> backend" where
  "post_register L dp_id public_key now st =
     (if dp_id = [] \<or> trim dp_id = []
      then (Err 400 ''dp_id must be a non-empty string'', st)
      else if public_key = [] \<or> trim public_key = []
      then (Err 400 ''public_key must be a non-empty string'', st)
      else if length dp_id < 1 \<or> 128 < length dp_id \<or> \<not> list_all is_id_char dp_id
      then (Err 400 ''dp_id must be alphanumeric (1-128 chars)'', st)
      else
        let trimmedKey = trim public_key in
        if length trimmedKey \<noteq> 130 \<or> \<not> list_all is_hex_char trimmedKey
        then (Err 400 ''public_key must be 130 hex chars (secp256k1 uncompressed)'', st)
        else (case keyFromPublic L trimmedKey of
          None \<Rightarrow> (Err 400 ''Invalid public key format'', st)
        | Some k \<Rightarrow>
          (case getDPKey dp_id (db st) of
             Some existingKey \<Rightarrow> (Err 409 ''DP already registered'', st)
           | None \<Rightarrow> (Registered dp_id, st\<lparr>db := registerDPKey dp_id trimmedKey now (db st)\<rparr>))))"

subsection \<open>Serving requests one after the other\<close>

datatype request =
  Activate sessions_body sessions_env
| Challenge string string challenge_env
| Deliver deliveries_body deliveries_env
| Verify string bool
| Register string string int

fun handle :: "library \<Rightarrow> request \<Rightarrow> backend \<Rightarrow> reply \<times> backend" where
  "handle L (Activate body env) st = post_sessions body env st"
| "handle L (Challenge session_id dp_id env) st = post_challenge session_id dp_id env st"
| "handle L (Deliver body env) st = post_deliveries L body env st"
| "handle L (Verify event_id rpc_ok) st = get_verify event_id rpc_ok st"
| "handle L (Register dp_id public_key now) st = post_register L dp_id public_key now st"

fun run :: "library \<Rightarrow> request list \<Rightarrow> backend \<Rightarrow> backend" where
  "run L [] st = st"
| "run L (r # rs) st = run L rs (snd (handle L r st))"

definition started :: "AnchorRegistry option \<Rightarrow> backend" where
  "started reg = \<lparr>db = empty_database, contract = reg\<rparr>"

section \<open>A small instance of the library and a delivery scenario\<close>

text \<open>
  The theorems below hold for every library. Their instances are evaluated on this
  one: the hash keeps the last 64 characters of its input in reverse order, writes f
  for a character that is not a lower-case hexadecimal digit and pads with 0, which
  gives 64 digits as SHA-256 does; a key parses when it is hexadecimal; the signature
  of a message under a key is the hash of the message followed by the first 64 digits
  of the key. The texts that
  \<open>JSON_parse\<close> reads are abbreviated by labels; each label parses to the value
  that the full text would give, and a text that is not listed is a syntax error.
\<close>

definition demo_sha256 :: "string \<Rightarrow> string" where
  "demo_sha256 s =
     take 64 (map (\<lambda>c. if c \<in> set ''0123456789abcdef'' then c else CHR ''f'') (rev s)
              @ replicate 64 CHR ''0'')"

definition demo_keyFromPublic :: "string \<Rightarrow> ec_key option" where
  "demo_keyFromPublic h = (if h \<noteq> [] \<and> list_all is_hex_char h then Some (KeyPair h) else None)"

fun demo_key_verify :: "ec_key \<Rightarrow> string \<Rightarrow> string \<Rightarrow> string \<Rightarrow> bool option" where
  "demo_key_verify (KeyPair pk) h r s = Some (r = h \<and> s = take 64 pk)"

definition demo_sign :: "string \<Rightarrow> string \<Rightarrow> string" where
  "demo_sign pk m = demo_sha256 m @ take 64 pk"

definition demo_pk :: string where
  "demo_pk = ''04'' @ replicate 128 CHR ''a''"

definition zeros :: entropy where
  "zeros = (\<lambda>i. 0)"

definition ones :: entropy where
  "ones = (\<lambda>i. 1)"

definition demo_session_id :: string where
  "demo_session_id = ''s_0000000000000000''"

definition demo_token :: string where
  "demo_token = replicate 64 CHR ''0''"

definition demo_nonce :: string where
  "demo_nonce = replicate 32 CHR ''0''"

definition demo_nonce2 :: string where
  "demo_nonce2 = concat (replicate 16 ''01'')"

definition demo_message :: "string \<Rightarrow> string \<Rightarrow> json" where
  "demo_message token_hash nonce =
     JObj [(''session_id'', JStr demo_session_id),
           (''ephemeral_token_hash'', JStr token_hash),
           (''challenge_nonce'', JStr nonce),
           (''timestamp'', JStr ''2026-01-11T10:00:03.000Z''),
           (''dp_id'', JStr ''dp_1'')]"

definition demo_bundle :: "string \<Rightarrow> json" where
  "demo_bundle m = JObj [(''message'', JStr m), (''signature'', JStr (demo_sign demo_pk m))]"

definition demo_JSON_parse :: "string \<Rightarrow> json option" where
  "demo_JSON_parse =
     map_of
       [(''msg_ok'', demo_message (''sha256:'' @ demo_sha256 demo_token) demo_nonce),
        (''msg_wrong_secret'', demo_message ''sha256:wrong'' demo_nonce),
        (''msg_second'', demo_message (''sha256:'' @ demo_sha256 demo_token) demo_nonce2),
        (''blob_ok'', demo_bundle ''msg_ok''),
        (''blob_wrong_secret'', demo_bundle ''msg_wrong_secret''),
        (''blob_second'', demo_bundle ''msg_second''),
        (''blob_bad_message'', demo_bundle ''msg_garbled''),
        (''blob_bad_signature'',
           JObj [(''message'', JStr ''msg_ok''), (''signature'', JStr ''xyz'')]),
        (''blob_null'', JNull)]"

definition demo_library :: library where
  "demo_library =
     \<lparr>sha256_hex = demo_sha256,
      keyFromPublic = demo_keyFromPublic,
      key_verify = demo_key_verify,
      base64_to_utf8 = (\<lambda>b. b),
      JSON_parse = demo_JSON_parse\<rparr>"

text \<open>
  The requests of the scenario: the partner registers, the customer activates a session
  of 300 seconds at time 1000, the partner asks for a challenge at time 2000 and
  submits a proof at time 3000.
\<close>

definition demo_register :: request where
  "demo_register = Register ''dp_1'' demo_pk 500"

definition demo_activate :: request where
  "demo_activate =
     Activate \<lparr>b_customer_id = ''cus_1'', b_order_id = ''ord_1'', b_ttl_seconds = Some 300\<rparr>
              \<lparr>se_now = 1000, se_entropy = zeros\<rparr>"

definition demo_challenge :: request where
  "demo_challenge =
     Challenge demo_session_id ''dp_1''
       \<lparr>ce_now_check = 2000, ce_now_created = 2000, ce_entropy = zeros\<rparr>"

definition demo_proof :: "string \<Rightarrow> deliveries_body" where
  "demo_proof blob =
     \<lparr>b_session_id = demo_session_id, b_dp_id = ''dp_1'', b_signed_blob = blob,
      b_evidence_hashes = [''sha256:ab'']\<rparr>"

definition demo_env :: "int \<Rightarrow> entropy \<Rightarrow> deliveries_env" where
  "demo_env t src =
     \<lparr>de_now = t, de_entropy = src,
      de_timestamp = ''2026-01-11T10:00:03.000Z'',
      de_backend_received_at = ''2026-01-11T10:00:03.001Z'',
      de_rpc_ok = True,
      de_tx = \<lparr>msg_sender = 7, block_timestamp = 1768125603\<rparr>,
      de_receipt_ok = True,
      de_receipt_hash = ''0xtx1'',
      de_anchored_at = ''2026-01-11T10:00:04.000Z''\<rparr>"

definition demo_ready :: backend where
  "demo_ready = run demo_library [demo_register, demo_activate, demo_challenge] (started None)"

text \<open>The rows of the database after these three requests.\<close>

definition demo_session :: session_row where
  "demo_session =
     \<lparr>s_session_id = demo_session_id, s_customer_id = ''cus_1'', s_order_id = ''ord_1'',
      s_ephemeral_token = demo_token, s_token_type = ''BLE'', s_created_at = 1000,
      s_expires_at = 301000, s_status = ''active''\<rparr>"

definition demo_key :: dp_key_row where
  "demo_key =
     \<lparr>k_dp_id = ''dp_1'', k_public_key = demo_pk, k_key_type = ''secp256k1'',
      k_registered_at = 500, k_status = ''active''\<rparr>"

definition demo_challenge_row :: challenge_row where
  "demo_challenge_row =
     \<lparr>c_challenge_id = ''ch_0000000000000000'', c_session_id = demo_session_id,
      c_dp_id = ''dp_1'', c_challenge_nonce = demo_nonce, c_created_at = 2000,
      c_expires_at = 62000, c_used = False\<rparr>"

text \<open>
  The same scenario with the contract deployed, the state after the proof was accepted
  and anchored, and that state with one column of the stored event rewritten in the
  database file, behind the back of the server.
\<close>

definition demo_ledger_ready :: backend where
  "demo_ledger_ready =
     run demo_library [demo_register, demo_activate, demo_challenge] (started (Some deployed))"



text \<open>
  Two more challenges for the session of the scenario: one issued half a second before
  the session expires, and a second one issued right after the first; and the states
  they lead to.
\<close>

definition demo_late_challenge :: request where
  "demo_late_challenge =
     Challenge demo_session_id ''dp_1''
       \<lparr>ce_now_check = 300500, ce_now_created = 300500, ce_entropy = zeros\<rparr>"

definition demo_second_challenge :: request where
  "demo_second_challenge =
     Challenge demo_session_id ''dp_1''
       \<lparr>ce_now_check = 2001, ce_now_created = 2001, ce_entropy = ones\<rparr>"

definition demo_late :: backend where
  "demo_late =
     run demo_library [demo_register, demo_activate, demo_late_challenge] (started None)"

definition demo_two :: backend where
  "demo_two =
     run demo_library
       [demo_register, demo_activate, demo_challenge, demo_second_challenge] (started None)"

definition demo_two_delivered :: backend where
  "demo_two_delivered =
     run demo_library [Deliver (demo_proof ''blob_second'') (demo_env 3000 zeros)] demo_two"




section \<open>Notions used in the statements\<close>

text \<open>
  The public key does not parse: it is not a string, or the library refuses it. The
  signature is malformed: it is not a string, has a character that is not a hexadecimal
  digit, or does not have 128 characters.
\<close>

definition key_unparsable :: "library \<Rightarrow> json option \<Rightarrow> bool" where
  "key_unparsable L publicKeyHex =
     (case publicKeyHex of Some (JStr pk) \<Rightarrow> keyFromPublic L pk = None | _ \<Rightarrow> True)"

definition signature_malformed :: "json option \<Rightarrow> bool" where
  "signature_malformed signatureHex =
     (case signatureHex of
        Some (JStr sg) \<Rightarrow> \<not> list_all is_hex_char sg \<or> length sg \<noteq> 128
      | _ \<Rightarrow> True)"

text \<open>
  A nonce is consumed when the table holds a used challenge that carries it. The nonce
  that a proof presents is the member \<^verbatim>\<open>challenge_nonce\<close> of its parsed message.
\<close>

definition consumed :: "string \<Rightarrow> database \<Rightarrow> bool" where
  "consumed nonce d = list_ex (\<lambda>c. c_challenge_nonce c = nonce \<and> c_used c) (challenges d)"


text \<open>
  The bundle does not decode: the text is not JSON, or it is \<^verbatim>\<open>null\<close>, whose
  destructuring throws. Likewise for the signed message.
\<close>

definition bundle_undecodable :: "library \<Rightarrow> string \<Rightarrow> bool" where
  "bundle_undecodable L blob =
     (JSON_parse L (base64_to_utf8 L blob) = None \<or>
      JSON_parse L (base64_to_utf8 L blob) = Some JNull)"

definition message_unparsable :: "library \<Rightarrow> string \<Rightarrow> bool" where
  "message_unparsable L m = (JSON_parse L m = None \<or> JSON_parse L m = Some JNull)"

text \<open>
  A stored event is consistent when its anchor hash, if it has one, is the hash of its
  own canonical serialization and is present in the registry. The stored events are
  consistent when their ids are distinct and each of them is.
\<close>

definition anchor_matches :: "library \<Rightarrow> event_row \<Rightarrow> bool" where
  "anchor_matches L e =
     (case e_anchor_hash e of
        None \<Rightarrow> True
      | Some h \<Rightarrow> h = ''0x'' @ hashString L (canonicalizeEvent e))"

definition event_ok :: "library \<Rightarrow> backend \<Rightarrow> event_row \<Rightarrow> bool" where
  "event_ok L st e =
     (anchor_matches L e \<and> (e_anchor_hash e = None \<or> blockchainVerified True e st))"


section \<open>Properties of the anchor registry\<close>





section \<open>Hexadecimal digits\<close>

lemma upt_16: "[0..<16] = [0, 1, 2, 3, 4, 5, 6, 7, 8, 9, 10, 11, 12, 13, 14, 15 :: nat]"
  by code_simp

lemma below_16_cases:
  "n < 16 \<Longrightarrow> n \<in> set [0, 1, 2, 3, 4, 5, 6, 7, 8, 9, 10, 11, 12, 13, 14, 15 :: nat]"
  using upt_16 by (metis atLeastLessThan_iff set_upt zero_le)

lemma hex_value_digit: "k < 16 \<Longrightarrow> hex_value (hex_digit k) = int k"
  by (drule below_16_cases) (auto simp: hex_digit_def hex_value_def hex_values_def)

lemma hex_digit_is_hex: "n < 16 \<Longrightarrow> is_hex_char (hex_digit n)"
  by (drule below_16_cases) (auto simp: hex_digit_def is_hex_char_def)

lemma hex_digit_inj: "n < 16 \<Longrightarrow> m < 16 \<Longrightarrow> hex_digit n = hex_digit m \<Longrightarrow> n = m"
  by (metis hex_value_digit of_nat_eq_iff)

lemma unat_byte_div: "unat (b :: 8 word) div 16 < 16"
proof -
  have "unat b < 256" using unsigned_less [of b, where 'a = nat] by simp
  then show ?thesis by simp
qed

lemma hex_byte_inj: "hex_byte b = hex_byte b' \<Longrightarrow> b = b'"
proof -
  assume "hex_byte b = hex_byte b'"
  then have hi: "hex_digit (unat b div 16) = hex_digit (unat b' div 16)"
    and lo: "hex_digit (unat b mod 16) = hex_digit (unat b' mod 16)"
    by (simp_all add: hex_byte_def)
  have "unat b div 16 = unat b' div 16"
    using hi by (intro hex_digit_inj unat_byte_div)
  moreover have "unat b mod 16 = unat b' mod 16"
    using lo by (intro hex_digit_inj) auto
  ultimately have "unat b = unat b'" by (metis div_mult_mod_eq)
  then show ?thesis by (simp add: word_unat_eq_iff)
qed

lemma toString_hex_length: "length (toString_hex bs) = 2 * length bs"
  by (induction bs) (simp_all add: toString_hex_def hex_byte_def)

lemma toString_hex_is_hex: "list_all is_hex_char (toString_hex bs)"
  by (induction bs) (simp_all add: toString_hex_def hex_byte_def hex_digit_is_hex unat_byte_div)

lemma toString_hex_inj: "toString_hex bs = toString_hex bs' \<Longrightarrow> bs = bs'"
proof (induction bs arbitrary: bs')
  case Nil
  then show ?case by (cases bs') (simp_all add: toString_hex_def hex_byte_def)
next
  case (Cons b bs)
  show ?case
  proof (cases bs')
    case Nil
    with Cons.prems show ?thesis by (simp add: toString_hex_def hex_byte_def)
  next
    case (Cons b' bs'')
    with Cons.prems have "hex_byte b @ toString_hex bs = hex_byte b' @ toString_hex bs''"
      by (simp add: toString_hex_def)
    then have "hex_byte b = hex_byte b'" and "toString_hex bs = toString_hex bs''"
      by (simp_all add: hex_byte_def)
    with Cons.IH Cons show ?thesis by (auto dest: hex_byte_inj)
  qed
qed

lemma generateToken_fst: "fst (generateToken n src) = toString_hex (map src [0..<n])"
  by (simp add: generateToken_def randomBytes_def)

section \<open>The canonical serialization\<close>










section \<open>Session activation\<close>

lemma find_append_fresh:
  "find P xs = None \<Longrightarrow> P y \<Longrightarrow> find P (xs @ [y]) = Some y"
  by (induction xs) (auto split: if_splits)

lemma find_None_notin: "k \<notin> set (map f xs) \<Longrightarrow> find (\<lambda>r. f r = k) xs = None"
  by (induction xs) auto

lemma createSession_getSession:
  "createSession sid cu od tok ty cr ex d = Inr d' \<Longrightarrow>
   getSession sid d' =
     Some \<lparr>s_session_id = sid, s_customer_id = cu, s_order_id = od, s_ephemeral_token = tok,
           s_token_type = ty, s_created_at = cr, s_expires_at = ex, s_status = ''active''\<rparr>"
  by (auto simp: createSession_def getSession_def find_append_fresh find_None_notin
           split: if_splits)

lemma createSession_fresh:
  "getSession sid d = None \<Longrightarrow>
   createSession sid cu od tok ty cr ex d =
     Inr (d\<lparr>sessions := sessions d @
       [\<lparr>s_session_id = sid, s_customer_id = cu, s_order_id = od, s_ephemeral_token = tok,
         s_token_type = ty, s_created_at = cr, s_expires_at = ex, s_status = ''active''\<rparr>]\<rparr>)"
  by (auto simp: createSession_def getSession_def find_None_iff)

lemma post_sessions_created:
  assumes "fst (post_sessions body env st) = SessionCreated sid tok ty ex ttl"
  shows "ttl = ttl_of body \<and> ex = se_now env + ttl * 1000 \<and>
         getSession sid (db (snd (post_sessions body env st))) =
           Some \<lparr>s_session_id = sid, s_customer_id = b_customer_id body,
                 s_order_id = b_order_id body, s_ephemeral_token = tok, s_token_type = ''BLE'',
                 s_created_at = se_now env, s_expires_at = se_now env + ttl * 1000,
                 s_status = ''active''\<rparr>"
proof -
  obtain sid' src1 where g1: "generateId ''s'' (se_entropy env) = (sid', src1)"
    by (cases "generateId ''s'' (se_entropy env)")
  obtain tok' src2 where g2: "generateToken 32 src1 = (tok', src2)"
    by (cases "generateToken 32 src1")
  let ?cs = "createSession sid' (b_customer_id body) (b_order_id body) tok' ''BLE''
               (se_now env) (se_now env + ttl_of body * 1000) (db st)"
  from assms g1 g2 obtain d where d: "?cs = Inr d"
    by (cases ?cs) (auto simp: post_sessions_def Let_def split: if_splits)
  from assms g1 g2 d show ?thesis
    using createSession_getSession [OF d]
    by (auto simp: post_sessions_def Let_def toISOString_def split: if_splits)
qed

text \<open>
  C7 (as stated, refuted): a ttl that is negative, zero or arbitrarily large is claimed
  to be rejected. The handler creates the session in all three cases; with ttl -5 the
  session expires 4 seconds before it was created.
\<close>

theorem post_sessions_accepts_any_ttl_counterexample:
  "fst (post_sessions \<lparr>b_customer_id = ''cus_1'', b_order_id = ''ord_1'', b_ttl_seconds = Some (- 5)\<rparr>
         \<lparr>se_now = 1000, se_entropy = zeros\<rparr> (started None))
     = SessionCreated demo_session_id demo_token ''BLE'' (- 4000) (- 5) \<and>
   fst (post_sessions \<lparr>b_customer_id = ''cus_1'', b_order_id = ''ord_1'', b_ttl_seconds = Some 0\<rparr>
         \<lparr>se_now = 1000, se_entropy = zeros\<rparr> (started None))
     = SessionCreated demo_session_id demo_token ''BLE'' 1000 0 \<and>
   fst (post_sessions \<lparr>b_customer_id = ''cus_1'', b_order_id = ''ord_1'', b_ttl_seconds = Some 1000000000\<rparr>
         \<lparr>se_now = 1000, se_entropy = zeros\<rparr> (started None))
     = SessionCreated demo_session_id demo_token ''BLE'' 1000000001000 1000000000"
  by code_simp

text \<open>
  C7 (amended): session activation answers 400 when the customer id or the order id
  is empty or missing, and checks nothing else: the ttl (300 seconds when the request
  gives none) is not validated. With both ids present, a fresh session id and an expiry
  inside the range of dates, the session is created whatever the ttl is. Every created
  session is stored as active with \<open>expires_at = created_at + ttl_seconds * 1000\<close>
  milliseconds, and the response reports that expiry.
\<close>

theorem post_sessions_validation:
  "(b_customer_id body = [] \<or> b_order_id body = [] \<longrightarrow>
      post_sessions body env st = (Err 400 ''customer_id and order_id required'', st)) \<and>
   (b_customer_id body \<noteq> [] \<and> b_order_id body \<noteq> [] \<and>
    getSession (fst (generateId ''s'' (se_entropy env))) (db st) = None \<and>
    \<bar>se_now env + ttl_of body * 1000\<bar> \<le> 8640000000000000 \<longrightarrow>
      fst (post_sessions body env st) =
        SessionCreated (fst (generateId ''s'' (se_entropy env)))
          (fst (generateToken 32 (snd (generateId ''s'' (se_entropy env))))) ''BLE''
          (se_now env + ttl_of body * 1000) (ttl_of body)) \<and>
   (fst (post_sessions body env st) = SessionCreated sid tok ty ex ttl \<longrightarrow>
      ttl = ttl_of body \<and> ex = se_now env + ttl * 1000 \<and>
      getSession sid (db (snd (post_sessions body env st))) =
        Some \<lparr>s_session_id = sid, s_customer_id = b_customer_id body,
              s_order_id = b_order_id body, s_ephemeral_token = tok, s_token_type = ''BLE'',
              s_created_at = se_now env, s_expires_at = se_now env + ttl * 1000,
              s_status = ''active''\<rparr>)"
proof -
  have "post_sessions body env st = (Err 400 ''customer_id and order_id required'', st)"
    if "b_customer_id body = [] \<or> b_order_id body = []"
    using that by (auto simp: post_sessions_def)
  moreover have "fst (post_sessions body env st) =
        SessionCreated (fst (generateId ''s'' (se_entropy env)))
          (fst (generateToken 32 (snd (generateId ''s'' (se_entropy env))))) ''BLE''
          (se_now env + ttl_of body * 1000) (ttl_of body)"
    if "b_customer_id body \<noteq> [] \<and> b_order_id body \<noteq> [] \<and>
        getSession (fst (generateId ''s'' (se_entropy env))) (db st) = None \<and>
        \<bar>se_now env + ttl_of body * 1000\<bar> \<le> 8640000000000000"
    using that
    by (auto simp: post_sessions_def Let_def createSession_fresh toISOString_def
             split: prod.splits)
  ultimately show ?thesis
    using post_sessions_created [of body env st sid tok ty ex ttl] by blast
qed

theorem post_sessions_validation_witness:
  "post_sessions \<lparr>b_customer_id = [], b_order_id = ''ord_1'', b_ttl_seconds = Some 300\<rparr>
       \<lparr>se_now = 1000, se_entropy = zeros\<rparr> (started None)
     = (Err 400 ''customer_id and order_id required'', started None) \<and>
   fst (post_sessions \<lparr>b_customer_id = ''cus_1'', b_order_id = ''ord_1'', b_ttl_seconds = Some 300\<rparr>
         \<lparr>se_now = 1000, se_entropy = zeros\<rparr> (started None))
     = SessionCreated demo_session_id demo_token ''BLE'' 301000 300 \<and>
   map_option s_expires_at (getSession demo_session_id
      (db (snd (post_sessions \<lparr>b_customer_id = ''cus_1'', b_order_id = ''ord_1'', b_ttl_seconds = Some 300\<rparr>
         \<lparr>se_now = 1000, se_entropy = zeros\<rparr> (started None))))) = Some (1000 + 300 * 1000)"
proof -
  let ?env = "\<lparr>se_now = 1000, se_entropy = zeros\<rparr>"
  let ?bad = "\<lparr>b_customer_id = [], b_order_id = ''ord_1'', b_ttl_seconds = Some 300\<rparr>"
  let ?good = "\<lparr>b_customer_id = ''cus_1'', b_order_id = ''ord_1'', b_ttl_seconds = Some 300\<rparr>"
  have h1: "b_customer_id ?bad = [] \<or> b_order_id ?bad = []" by simp
  have h2: "b_customer_id ?good \<noteq> [] \<and> b_order_id ?good \<noteq> [] \<and>
    getSession (fst (generateId ''s'' (se_entropy ?env))) (db (started None)) = None \<and>
    \<bar>se_now ?env + ttl_of ?good * 1000\<bar> \<le> 8640000000000000"
    by code_simp
  have e: "fst (generateId ''s'' (se_entropy ?env)) = demo_session_id \<and>
    fst (generateToken 32 (snd (generateId ''s'' (se_entropy ?env)))) = demo_token \<and>
    se_now ?env + ttl_of ?good * 1000 = 301000 \<and> ttl_of ?good = 300"
    by code_simp
  have t1: "post_sessions ?bad ?env (started None)
     = (Err 400 ''customer_id and order_id required'', started None)"
    using post_sessions_validation [of ?bad ?env "started None"] h1 by blast
  have t2: "fst (post_sessions ?good ?env (started None))
     = SessionCreated demo_session_id demo_token ''BLE'' 301000 300"
    using post_sessions_validation [of ?good ?env "started None"] h2 e by metis
  have t3: "getSession demo_session_id (db (snd (post_sessions ?good ?env (started None)))) =
        Some \<lparr>s_session_id = demo_session_id, s_customer_id = b_customer_id ?good,
              s_order_id = b_order_id ?good, s_ephemeral_token = demo_token, s_token_type = ''BLE'',
              s_created_at = se_now ?env, s_expires_at = se_now ?env + 300 * 1000,
              s_status = ''active''\<rparr>"
    using post_sessions_validation [of ?good ?env "started None" demo_session_id demo_token "''BLE''" 301000 300] t2
    by blast
  show ?thesis using t1 t2 t3 by simp
qed

section \<open>Challenge issuance\<close>

lemma post_challenge_issued:
  assumes "fst (post_challenge session_id dp_id env st) = ChallengeIssued nonce expires"
  shows "nonce = fst (generateToken 16 (snd (generateId ''ch'' (ce_entropy env)))) \<and>
         expires = ce_now_created env + 60000 \<and>
         challenges (db (snd (post_challenge session_id dp_id env st))) =
           challenges (db st) @
             [\<lparr>c_challenge_id = fst (generateId ''ch'' (ce_entropy env)),
               c_session_id = session_id, c_dp_id = dp_id, c_challenge_nonce = nonce,
               c_created_at = ce_now_created env, c_expires_at = ce_now_created env + 60000,
               c_used = False\<rparr>]"
  using assms
  by (auto simp: post_challenge_def Let_def createChallenge_def toISOString_def
           split: if_splits option.splits prod.splits sum.splits)

text \<open>
  C9 (as stated, refuted): the validity window of a challenge is claimed to be shorter
  than the TTL of every session that activation permits. Activation accepts a TTL of 30
  seconds; the challenge issued for that session is valid for 60 seconds.
\<close>

theorem challenge_window_exceeds_ttl_counterexample:
  "fst (handle demo_library
          (Activate \<lparr>b_customer_id = ''cus_1'', b_order_id = ''ord_1'', b_ttl_seconds = Some 30\<rparr>
                    \<lparr>se_now = 1000, se_entropy = zeros\<rparr>)
          (run demo_library [demo_register] (started None)))
     = SessionCreated demo_session_id demo_token ''BLE'' 31000 30 \<and>
   fst (handle demo_library demo_challenge
          (run demo_library
             [demo_register,
              Activate \<lparr>b_customer_id = ''cus_1'', b_order_id = ''ord_1'', b_ttl_seconds = Some 30\<rparr>
                       \<lparr>se_now = 1000, se_entropy = zeros\<rparr>]
             (started None)))
     = ChallengeIssued demo_nonce 62000 \<and>
   s_expires_at (hd (sessions (db (run demo_library
       [demo_register,
        Activate \<lparr>b_customer_id = ''cus_1'', b_order_id = ''ord_1'', b_ttl_seconds = Some 30\<rparr>
                 \<lparr>se_now = 1000, se_entropy = zeros\<rparr>,
        demo_challenge] (started None)))))
   - s_created_at (hd (sessions (db (run demo_library
       [demo_register,
        Activate \<lparr>b_customer_id = ''cus_1'', b_order_id = ''ord_1'', b_ttl_seconds = Some 30\<rparr>
                 \<lparr>se_now = 1000, se_entropy = zeros\<rparr>,
        demo_challenge] (started None))))) = 30000 \<and>
   c_expires_at (hd (challenges (db (run demo_library
       [demo_register,
        Activate \<lparr>b_customer_id = ''cus_1'', b_order_id = ''ord_1'', b_ttl_seconds = Some 30\<rparr>
                 \<lparr>se_now = 1000, se_entropy = zeros\<rparr>,
        demo_challenge] (started None)))))
   - c_created_at (hd (challenges (db (run demo_library
       [demo_register,
        Activate \<lparr>b_customer_id = ''cus_1'', b_order_id = ''ord_1'', b_ttl_seconds = Some 30\<rparr>
                 \<lparr>se_now = 1000, se_entropy = zeros\<rparr>,
        demo_challenge] (started None))))) = 60000"
  by code_simp

text \<open>
  C9 (amended): the nonce of an issued challenge is the hexadecimal writing of 16 bytes
  read from the entropy source: 32 hexadecimal digits, and two readings give the same
  nonce only if the 16 bytes are the same (128 bits). The challenge is stored unused
  and is valid for the constant 60000 milliseconds from its creation, whatever the TTL
  of its session is. (The window is shorter than the session's TTL exactly when that
  TTL exceeds 60 seconds, as the default of 300 does.)
\<close>

theorem challenge_nonce_and_window:
  "length (fst (generateToken 16 src)) = 32 \<and>
   list_all is_hex_char (fst (generateToken 16 src)) \<and>
   ((fst (generateToken 16 src) = fst (generateToken 16 src'))
      = (map src [0..<16] = map src' [0..<16])) \<and>
   (fst (post_challenge session_id dp_id env st) = ChallengeIssued nonce expires \<longrightarrow>
      nonce = fst (generateToken 16 (snd (generateId ''ch'' (ce_entropy env)))) \<and>
      expires = ce_now_created env + 60000 \<and>
      (\<exists>c. challenges (db (snd (post_challenge session_id dp_id env st)))
             = challenges (db st) @ [c] \<and>
           c_session_id c = session_id \<and> c_dp_id c = dp_id \<and>
           c_challenge_nonce c = nonce \<and> \<not> c_used c \<and>
           c_expires_at c - c_created_at c = 60000))"
proof -
  have "length (fst (generateToken 16 src)) = 32"
    by (simp add: generateToken_fst toString_hex_length)
  moreover have "list_all is_hex_char (fst (generateToken 16 src))"
    by (simp only: generateToken_fst toString_hex_is_hex)
  moreover have "(fst (generateToken 16 src) = fst (generateToken 16 src'))
      = (map src [0..<16] = map src' [0..<16])"
    unfolding generateToken_fst by (metis toString_hex_inj)
  moreover have "nonce = fst (generateToken 16 (snd (generateId ''ch'' (ce_entropy env)))) \<and>
      expires = ce_now_created env + 60000 \<and>
      (\<exists>c. challenges (db (snd (post_challenge session_id dp_id env st)))
             = challenges (db st) @ [c] \<and>
           c_session_id c = session_id \<and> c_dp_id c = dp_id \<and>
           c_challenge_nonce c = nonce \<and> \<not> c_used c \<and>
           c_expires_at c - c_created_at c = 60000)"
    if "fst (post_challenge session_id dp_id env st) = ChallengeIssued nonce expires"
    using post_challenge_issued [OF that] by simp
  ultimately show ?thesis by blast
qed

theorem challenge_nonce_and_window_witness:
  "fst (post_challenge demo_session_id ''dp_1''
          \<lparr>ce_now_check = 2000, ce_now_created = 2000, ce_entropy = zeros\<rparr>
          (run demo_library [demo_register, demo_activate] (started None)))
     = ChallengeIssued demo_nonce 62000 \<and>
   demo_nonce = fst (generateToken 16 (snd (generateId ''ch'' zeros))) \<and>
   length demo_nonce = 32"
proof -
  let ?env = "\<lparr>ce_now_check = 2000, ce_now_created = 2000, ce_entropy = zeros\<rparr>"
  let ?st = "run demo_library [demo_register, demo_activate] (started None)"
  have h: "fst (post_challenge demo_session_id ''dp_1'' ?env ?st) = ChallengeIssued demo_nonce 62000"
    by code_simp
  have "demo_nonce = fst (generateToken 16 (snd (generateId ''ch'' (ce_entropy ?env))))"
    using challenge_nonce_and_window [of _ _ demo_session_id "''dp_1''" ?env ?st demo_nonce 62000] h
    by blast
  then have n: "demo_nonce = fst (generateToken 16 (snd (generateId ''ch'' zeros)))"
    by simp
  have l: "length (fst (generateToken 16 (snd (generateId ''ch'' zeros)))) = 32"
    using challenge_nonce_and_window [of "snd (generateId ''ch'' zeros)"] by blast
  have "length demo_nonce = 32"
    unfolding n by (rule l)
  with h n show ?thesis by blast
qed

section \<open>Signature verification\<close>

lemma verifySignature_strings:
  "verifySignature L pk m sg \<Longrightarrow> (\<exists>m'. m = Some (JStr m')) \<and> (\<exists>sg'. sg = Some (JStr sg'))"
  by (auto simp: verifySignature_def verifySignature_try_def
           split: option.splits json.splits if_splits sum.splits)

lemma verifySignature_false_key:
  "key_unparsable L pk \<Longrightarrow> \<not> verifySignature L pk m sg"
  by (auto simp: verifySignature_def verifySignature_try_def key_unparsable_def
           split: option.splits json.splits if_splits sum.splits)

lemma verifySignature_false_signature:
  "signature_malformed sg \<Longrightarrow> \<not> verifySignature L pk m sg"
  by (auto simp: verifySignature_def verifySignature_try_def signature_malformed_def
           split: option.splits json.splits if_splits sum.splits)

lemma demo_ready_eq:
  "demo_ready =
     \<lparr>db = \<lparr>sessions = [demo_session], challenges = [demo_challenge_row],
            delivery_events = [], dp_keys = [demo_key]\<rparr>,
      contract = None\<rparr>"
  by code_simp

text \<open>
  C10: \<open>verifySignature\<close> returns a boolean for every input: its value is \<^verbatim>\<open>true\<close>
  exactly when the guarded body returns \<^verbatim>\<open>true\<close>, and an exception of the body gives
  \<^verbatim>\<open>false\<close>. It is \<^verbatim>\<open>false\<close> whenever the public key does not parse or the signature
  is not a string, not hexadecimal or not of 128 characters; a proof that reaches the
  signature check in that condition is answered 401 "Invalid signature" and the state
  is unchanged.
\<close>

theorem verifySignature_never_raises:
  "(verifySignature L pk m sg = (verifySignature_try L pk m sg = Inr True)) \<and>
   (key_unparsable L pk \<or> signature_malformed sg \<longrightarrow> \<not> verifySignature L pk m sg) \<and>
   (b_session_id body \<noteq> [] \<and> b_dp_id body \<noteq> [] \<and> b_signed_blob body \<noteq> [] \<and>
    getSession (b_session_id body) (db st) = Some session \<and>
    getChallenge (b_session_id body) (b_dp_id body) (db st) = Some challenge \<and>
    de_now env \<le> c_expires_at challenge \<and>
    getDPKey (b_dp_id body) (db st) = Some dpKey \<and>
    parse_signed_blob L (b_signed_blob body) = Inr (message, signature) \<and>
    (key_unparsable L (Some (JStr (k_public_key dpKey))) \<or> signature_malformed signature)
    \<longrightarrow> post_deliveries L body env st = (Err 401 ''Invalid signature'', st))"
proof (intro conjI impI)
  show "verifySignature L pk m sg = (verifySignature_try L pk m sg = Inr True)"
    by (cases "verifySignature_try L pk m sg") (auto simp: verifySignature_def)
next
  assume "key_unparsable L pk \<or> signature_malformed sg"
  then show "\<not> verifySignature L pk m sg"
    using verifySignature_false_key verifySignature_false_signature by blast
next
  assume a: "b_session_id body \<noteq> [] \<and> b_dp_id body \<noteq> [] \<and> b_signed_blob body \<noteq> [] \<and>
    getSession (b_session_id body) (db st) = Some session \<and>
    getChallenge (b_session_id body) (b_dp_id body) (db st) = Some challenge \<and>
    de_now env \<le> c_expires_at challenge \<and>
    getDPKey (b_dp_id body) (db st) = Some dpKey \<and>
    parse_signed_blob L (b_signed_blob body) = Inr (message, signature) \<and>
    (key_unparsable L (Some (JStr (k_public_key dpKey))) \<or> signature_malformed signature)"
  then have "\<not> verifySignature L (Some (JStr (k_public_key dpKey))) message signature"
    using verifySignature_false_key verifySignature_false_signature by blast
  with a show "post_deliveries L body env st = (Err 401 ''Invalid signature'', st)"
    by (simp add: post_deliveries_def delivery_checks_def)
qed

theorem verifySignature_never_raises_witness:
  "signature_malformed (Some (JStr ''xyz'')) \<and>
   \<not> verifySignature demo_library (Some (JStr demo_pk)) (Some (JStr ''msg_ok''))
        (Some (JStr ''xyz'')) \<and>
   post_deliveries demo_library (demo_proof ''blob_bad_signature'') (demo_env 3000 zeros)
       demo_ready
     = (Err 401 ''Invalid signature'', demo_ready)"
proof -
  let ?body = "demo_proof ''blob_bad_signature''"
  have s: "signature_malformed (Some (JStr ''xyz''))"
    by code_simp
  have h: "b_session_id ?body \<noteq> [] \<and> b_dp_id ?body \<noteq> [] \<and> b_signed_blob ?body \<noteq> [] \<and>
    getSession (b_session_id ?body) (db demo_ready) = Some demo_session \<and>
    getChallenge (b_session_id ?body) (b_dp_id ?body) (db demo_ready)
      = Some demo_challenge_row \<and>
    de_now (demo_env 3000 zeros) \<le> c_expires_at demo_challenge_row \<and>
    getDPKey (b_dp_id ?body) (db demo_ready) = Some demo_key \<and>
    parse_signed_blob demo_library (b_signed_blob ?body)
      = Inr (Some (JStr ''msg_ok''), Some (JStr ''xyz''))"
    unfolding demo_ready_eq by code_simp
  have k: "k_public_key demo_key = demo_pk"
    by (simp add: demo_key_def)
  from s h
    verifySignature_never_raises [of demo_library "Some (JStr demo_pk)" "Some (JStr ''msg_ok'')"
      "Some (JStr ''xyz'')" ?body demo_ready demo_session demo_challenge_row
      "demo_env 3000 zeros" demo_key "Some (JStr ''msg_ok'')" "Some (JStr ''xyz'')"]
  show ?thesis by blast
qed

section \<open>The delivery handler\<close>








lemma record_delivery_reply:
  "fst (record_delivery L body env session challenge sg st) = Err 500 ''Internal server error'' \<or>
   (\<exists>tx. fst (record_delivery L body env session challenge sg st)
      = Verified (fst (generateId ''evt'' (de_entropy env))) tx)"
  by (simp add: record_delivery_def new_event_def Let_def split_beta split: sum.splits)


section \<open>How requests change the tables\<close>





lemma consumed_cong: "challenges d = challenges d' \<Longrightarrow> consumed n d = consumed n d'"
  by (simp add: consumed_def)























lemma get_property_not_null:
  "get_property md k = Inr v \<Longrightarrow> \<exists>w. get_property md k' = Inr w"
  by (cases md) auto

lemma message_matches_presented:
  assumes "JSON_parse L m = Some md" and "get_property md ''challenge_nonce'' = Inr (Some (JStr n))"
  shows "message_matches L m sid n' = Inr False \<or> (message_matches L m sid n' = Inr True \<and> n' = n)"
proof -
  from assms(2) obtain w where "get_property md ''session_id'' = Inr w"
    using get_property_not_null by blast
  with assms show ?thesis
    by (auto simp: message_matches_def)
qed


section \<open>Single use of a challenge\<close>










section \<open>Stored events and their anchors\<close>



lemma canonicalizeEvent_extend:
  "canonicalizeEvent (eventData.extend ev more) = canonicalizeEvent ev"
  by (simp add: canonicalizeEvent_def eventData.defs)



lemma event_ok_same_contract:
  "contract st' = contract st \<Longrightarrow> event_ok L st' e = event_ok L st e"
  by (simp add: event_ok_def blockchainVerified_def)





















section \<open>Malformed proofs\<close>

text \<open>
  C8 (as stated, refuted): a bundle that does not decode, or a signed message that does
  not parse, is claimed to get a typed failure from a structural check that comes
  first. In the scenario both get the generic 500 "Internal server error", and an
  undecodable bundle for an unknown session gets 404 "Session not found": the session
  is looked up before the bundle is decoded.
\<close>

theorem malformed_proof_generic_error_counterexample:
  "bundle_undecodable demo_library ''not json'' \<and>
   fst (post_deliveries demo_library (demo_proof ''not json'') (demo_env 3000 zeros) demo_ready)
     = Err 500 ''Internal server error'' \<and>
   message_unparsable demo_library ''msg_garbled'' \<and>
   fst (post_deliveries demo_library (demo_proof ''blob_bad_message'') (demo_env 3000 zeros)
          demo_ready)
     = Err 500 ''Internal server error'' \<and>
   fst (post_deliveries demo_library
          \<lparr>b_session_id = ''s_unknown'', b_dp_id = ''dp_1'', b_signed_blob = ''not json'',
           b_evidence_hashes = []\<rparr> (demo_env 3000 zeros) demo_ready)
     = Err 404 ''Session not found''"
  unfolding demo_ready_eq by code_simp


text \<open>
  C8 (amended): the bundle is decoded after the required fields, the session, the
  challenge and the registration have been checked; an unknown session is answered 404
  whatever the bundle is. Once these checks have passed: a bundle that is not JSON (or
  is \<^verbatim>\<open>null\<close>) is answered with the generic 500 "Internal server error"; a bundle
  whose message or signature is not a string is answered 401 "Invalid signature"; and
  when the signature verifies, a message that is not JSON (or is \<^verbatim>\<open>null\<close>) is answered
  with the generic 500, a message with another session id or nonce with 400 "Message
  data mismatch". In each case the state is unchanged: no event is minted.
\<close>

theorem malformed_proof_responses:
  "(b_session_id body \<noteq> [] \<and> b_dp_id body \<noteq> [] \<and> b_signed_blob body \<noteq> [] \<and>
    getSession (b_session_id body) (db st) = None \<longrightarrow>
      post_deliveries L body env st = (Err 404 ''Session not found'', st)) \<and>
   (b_session_id body \<noteq> [] \<and> b_dp_id body \<noteq> [] \<and> b_signed_blob body \<noteq> [] \<and>
    getSession (b_session_id body) (db st) = Some session \<and>
    getChallenge (b_session_id body) (b_dp_id body) (db st) = Some challenge \<and>
    de_now env \<le> c_expires_at challenge \<and>
    getDPKey (b_dp_id body) (db st) = Some dpKey \<longrightarrow>
      (bundle_undecodable L (b_signed_blob body) \<longrightarrow>
         post_deliveries L body env st = (Err 500 ''Internal server error'', st)) \<and>
      (parse_signed_blob L (b_signed_blob body) = Inr (message, signature) \<and>
       (\<not> is_string message \<or> \<not> is_string signature) \<longrightarrow>
         post_deliveries L body env st = (Err 401 ''Invalid signature'', st)) \<and>
      (parse_signed_blob L (b_signed_blob body) = Inr (Some (JStr m), Some (JStr sg)) \<and>
       verifySignature L (Some (JStr (k_public_key dpKey))) (Some (JStr m)) (Some (JStr sg)) \<longrightarrow>
         (message_unparsable L m \<longrightarrow>
            post_deliveries L body env st = (Err 500 ''Internal server error'', st)) \<and>
         (message_matches L m (b_session_id body) (c_challenge_nonce challenge) = Inr False \<longrightarrow>
            post_deliveries L body env st = (Err 400 ''Message data mismatch'', st))))"
proof -
  have undecodable: "isl (parse_signed_blob L blob)" if "bundle_undecodable L blob" for blob
    using that by (auto simp: bundle_undecodable_def parse_signed_blob_def)
  have unparsable: "isl (message_matches L m sid n)" if "message_unparsable L m" for sid n
    using that by (auto simp: message_unparsable_def message_matches_def)
  have not_strings: "\<not> verifySignature L pk message signature"
    if "\<not> is_string message \<or> \<not> is_string signature" for pk
    using that verifySignature_strings [of L pk message signature] by auto
  show ?thesis
    using undecodable [of "b_signed_blob body"]
      unparsable [of "b_session_id body" "c_challenge_nonce challenge"] not_strings
    by (auto simp: post_deliveries_def delivery_checks_def split: sum.splits)
qed

theorem malformed_proof_responses_witness:
  "post_deliveries demo_library (demo_proof ''not json'') (demo_env 3000 zeros) demo_ready
     = (Err 500 ''Internal server error'', demo_ready) \<and>
   post_deliveries demo_library (demo_proof ''blob_bad_message'') (demo_env 3000 zeros) demo_ready
     = (Err 500 ''Internal server error'', demo_ready) \<and>
   post_deliveries demo_library (demo_proof ''blob_second'') (demo_env 3000 zeros) demo_ready
     = (Err 400 ''Message data mismatch'', demo_ready)"
proof -
  have pre: "b_session_id (demo_proof blob) \<noteq> [] \<and> b_dp_id (demo_proof blob) \<noteq> [] \<and>
    getSession (b_session_id (demo_proof blob)) (db demo_ready) = Some demo_session \<and>
    getChallenge (b_session_id (demo_proof blob)) (b_dp_id (demo_proof blob)) (db demo_ready)
      = Some demo_challenge_row \<and>
    de_now (demo_env 3000 zeros) \<le> c_expires_at demo_challenge_row \<and>
    getDPKey (b_dp_id (demo_proof blob)) (db demo_ready) = Some demo_key" for blob
    unfolding demo_proof_def demo_ready_eq by simp code_simp
  have b1: "b_signed_blob (demo_proof ''not json'') \<noteq> [] \<and>
    bundle_undecodable demo_library (b_signed_blob (demo_proof ''not json''))"
    by code_simp
  have b2: "b_signed_blob (demo_proof ''blob_bad_message'') \<noteq> [] \<and>
    parse_signed_blob demo_library (b_signed_blob (demo_proof ''blob_bad_message''))
      = Inr (Some (JStr ''msg_garbled''), Some (JStr (demo_sign demo_pk ''msg_garbled''))) \<and>
    verifySignature demo_library (Some (JStr (k_public_key demo_key)))
      (Some (JStr ''msg_garbled'')) (Some (JStr (demo_sign demo_pk ''msg_garbled''))) \<and>
    message_unparsable demo_library ''msg_garbled''"
    by code_simp
  have b3: "b_signed_blob (demo_proof ''blob_second'') \<noteq> [] \<and>
    parse_signed_blob demo_library (b_signed_blob (demo_proof ''blob_second''))
      = Inr (Some (JStr ''msg_second''), Some (JStr (demo_sign demo_pk ''msg_second''))) \<and>
    verifySignature demo_library (Some (JStr (k_public_key demo_key)))
      (Some (JStr ''msg_second'')) (Some (JStr (demo_sign demo_pk ''msg_second''))) \<and>
    message_matches demo_library ''msg_second'' (b_session_id (demo_proof ''blob_second''))
      (c_challenge_nonce demo_challenge_row) = Inr False"
    by code_simp
  have t1: "post_deliveries demo_library (demo_proof ''not json'') (demo_env 3000 zeros) demo_ready
     = (Err 500 ''Internal server error'', demo_ready)"
    using malformed_proof_responses [of "demo_proof ''not json''" demo_ready demo_library
        "demo_env 3000 zeros" demo_session demo_challenge_row demo_key] pre [of "''not json''"] b1
    by blast
  have t2: "post_deliveries demo_library (demo_proof ''blob_bad_message'') (demo_env 3000 zeros)
       demo_ready = (Err 500 ''Internal server error'', demo_ready)"
    using malformed_proof_responses [of "demo_proof ''blob_bad_message''" demo_ready demo_library
        "demo_env 3000 zeros" demo_session demo_challenge_row demo_key _ _
        "''msg_garbled''" "demo_sign demo_pk ''msg_garbled''"]
      pre [of "''blob_bad_message''"] b2
    by blast
  have t3: "post_deliveries demo_library (demo_proof ''blob_second'') (demo_env 3000 zeros)
       demo_ready = (Err 400 ''Message data mismatch'', demo_ready)"
    using malformed_proof_responses [of "demo_proof ''blob_second''" demo_ready demo_library
        "demo_env 3000 zeros" demo_session demo_challenge_row demo_key _ _
        "''msg_second''" "demo_sign demo_pk ''msg_second''"]
      pre [of "''blob_second''"] b3
    by blast
  from t1 t2 t3 show ?thesis by blast
qed


section \<open>Checks that the delivery handler does not make\<close>

lemma demo_late_eq:
  "demo_late =
     \<lparr>db = \<lparr>sessions = [demo_session],
            challenges = [demo_challenge_row\<lparr>c_created_at := 300500, c_expires_at := 360500\<rparr>],
            delivery_events = [], dp_keys = [demo_key]\<rparr>,
      contract = None\<rparr>"
  by code_simp

lemma demo_two_eq:
  "demo_two =
     \<lparr>db = \<lparr>sessions = [demo_session],
            challenges = [demo_challenge_row,
              \<lparr>c_challenge_id = ''ch_0101010101010101'', c_session_id = demo_session_id,
               c_dp_id = ''dp_1'', c_challenge_nonce = demo_nonce2, c_created_at = 2001,
               c_expires_at = 62001, c_used = False\<rparr>],
            delivery_events = [], dp_keys = [demo_key]\<rparr>,
      contract = None\<rparr>"
  by code_simp


text \<open>
  C1 (the code does not make the check): in the scenario the message carries the hash
  "sha256:wrong", which is not the hash of the session's token; its signature is valid
  and its session id and nonce are right. The handler accepts the proof and stores the
  event.
\<close>

theorem wrong_secret_hash_accepted:
  "JSON_parse demo_library ''msg_wrong_secret'' = Some (demo_message ''sha256:wrong'' demo_nonce) \<and>
   ''sha256:wrong'' \<noteq> ''sha256:'' @ hashString demo_library demo_token \<and>
   getSession demo_session_id (db demo_ready) = Some demo_session \<and>
   s_ephemeral_token demo_session = demo_token \<and>
   fst (post_deliveries demo_library (demo_proof ''blob_wrong_secret'') (demo_env 3000 zeros)
          demo_ready)
     = Verified ''evt_0000000000000000'' None \<and>
   map e_event_id (delivery_events (db (snd
      (post_deliveries demo_library (demo_proof ''blob_wrong_secret'') (demo_env 3000 zeros)
          demo_ready))))
     = [''evt_0000000000000000'']"
  unfolding demo_ready_eq by code_simp


text \<open>
  C2 (the code does not make the check): the session of the scenario expires at
  301000. A challenge issued at 300500 is valid until 360500; at time 302000 the
  challenge handler refuses the session as expired, and the delivery handler accepts
  a proof for it. With two challenges issued, the first accepted proof completes the
  session; the challenge handler then refuses the session as not active, and the
  delivery handler accepts a second proof against the other challenge.
\<close>

theorem expired_or_completed_session_accepted:
  "getSession demo_session_id (db demo_late) = Some demo_session \<and>
   s_expires_at demo_session < de_now (demo_env 302000 zeros) \<and>
   fst (post_challenge demo_session_id ''dp_1''
          \<lparr>ce_now_check = 302000, ce_now_created = 302000, ce_entropy = ones\<rparr> demo_late)
     = Err 400 ''Session expired'' \<and>
   fst (post_deliveries demo_library (demo_proof ''blob_ok'') (demo_env 302000 zeros) demo_late)
     = Verified ''evt_0000000000000000'' None \<and>
   map s_status (sessions (db demo_two_delivered)) = [''completed''] \<and>
   fst (post_challenge demo_session_id ''dp_1''
          \<lparr>ce_now_check = 3500, ce_now_created = 3500, ce_entropy = ones\<rparr> demo_two_delivered)
     = Err 400 ''Session not active'' \<and>
   fst (post_deliveries demo_library (demo_proof ''blob_ok'') (demo_env 3500 ones)
          demo_two_delivered)
     = Verified ''evt_0101010101010101'' None"
  unfolding demo_late_eq demo_two_delivered_def demo_two_eq by code_simp


end
